theory Spec2Isabelle
  imports Main "HOL-Library.AList"
begin

section \<open>The persisted data (src/src/database.py)\<close>

text \<open>
  The two mapped classes of \<^verbatim>\<open>database.py\<close>. \<^verbatim>\<open>Activity.id\<close> and
  \<^verbatim>\<open>Participant.id\<close> are the integer primary keys; they are named \<open>a_id\<close> and
  \<open>p_id\<close> here because \<open>id\<close> is the identity function of HOL. SQL integers and
  Python integers are \<open>int\<close>, strings are \<open>string\<close>.
\<close>

record activity =
  a_id :: int
  name :: string
  description :: string
  schedule :: string
  max_participants :: int

record participant =
  p_id :: int
  activity_id :: int
  email :: string

text \<open>
  The store holds the rows of the two tables, each table in the order in which its rows
  were inserted. The association table \<^verbatim>\<open>activity_participants\<close> is declared in the
  source and used by no function, so it carries no state here.
\<close>

record db =
  activities :: "activity list"
  participants :: "participant list"

definition empty_db :: db where
  "empty_db = \<lparr>activities = [], participants = []\<rparr>"

text \<open>
  The key an insert without an explicit key receives. The source leaves it to the store
  (an \<^verbatim>\<open>Integer\<close> primary key column with no value given); the default store of
  \<^verbatim>\<open>DATABASE_URL\<close> is SQLite, which gives 1 in an empty table and one more than the
  largest key in use otherwise.
\<close>

definition next_rowid :: "int list \<Rightarrow> int" where
  "next_rowid ids = (if ids = [] then 1 else Max (set ids) + 1)"

subsection \<open>The session\<close>

text \<open>
  \<^verbatim>\<open>SessionLocal()\<close> opens a session on the store with
  \<^verbatim>\<open>autocommit=False\<close>: the session works on its own view \<open>txn\<close> of the store,
  \<^verbatim>\<open>commit\<close> makes the view the persisted state, and closing the session (the
  \<^verbatim>\<open>finally\<close> blocks of \<^verbatim>\<open>get_db\<close> and \<^verbatim>\<open>seed_initial_data\<close>) drops whatever
  was not committed. No query of the source runs between an \<^verbatim>\<open>add\<close> or a
  \<^verbatim>\<open>delete\<close> and the next \<^verbatim>\<open>flush\<close> or \<^verbatim>\<open>commit\<close>, so an added object is written to
  the view at once, and receives its key there.
\<close>

record session =
  persisted :: db
  txn :: db

definition SessionLocal :: "db \<Rightarrow> session" where
  "SessionLocal d = \<lparr>persisted = d, txn = d\<rparr>"

definition commit :: "session \<Rightarrow> session" where
  "commit s = s\<lparr>persisted := txn s\<rparr>"

text \<open>What is left in the store once the session is closed.\<close>

definition close :: "session \<Rightarrow> db" where
  "close s = persisted s"

text \<open>
  \<^verbatim>\<open>db.add(Activity(name=..., description=..., schedule=..., max_participants=...))\<close>
  followed by \<^verbatim>\<open>db.flush()\<close>: the row is written with a fresh key, and the object, now
  carrying its key, is returned with the session.
\<close>

definition add_activity ::
  "string \<Rightarrow> string \<Rightarrow> string \<Rightarrow> int \<Rightarrow> session \<Rightarrow> activity \<times> session" where
  "add_activity n d sch m s =
     (let a = \<lparr>a_id = next_rowid (map a_id (activities (txn s))), name = n,
                description = d, schedule = sch, max_participants = m\<rparr>
      in (a, s\<lparr>txn := (txn s)\<lparr>activities := activities (txn s) @ [a]\<rparr>\<rparr>))"

text \<open>\<^verbatim>\<open>db.add(Participant(activity_id=..., email=...))\<close>.\<close>

definition add_participant :: "int \<Rightarrow> string \<Rightarrow> session \<Rightarrow> session" where
  "add_participant aid e s =
     (let p = \<lparr>p_id = next_rowid (map p_id (participants (txn s))),
                activity_id = aid, email = e\<rparr>
      in s\<lparr>txn := (txn s)\<lparr>participants := participants (txn s) @ [p]\<rparr>\<rparr>)"

text \<open>
  \<^verbatim>\<open>db.delete(participant)\<close>: the unit of work deletes the row of the object by its
  primary key.
\<close>

definition delete_participant :: "participant \<Rightarrow> session \<Rightarrow> session" where
  "delete_participant p s =
     s\<lparr>txn := (txn s)\<lparr>participants :=
          filter (\<lambda>q. p_id q \<noteq> p_id p) (participants (txn s))\<rparr>\<rparr>"

subsection \<open>The queries of the source\<close>

text \<open>\<^verbatim>\<open>db.query(Activity).filter(Activity.name == activity_name).first()\<close>\<close>

definition activity_by_name :: "session \<Rightarrow> string \<Rightarrow> activity option" where
  "activity_by_name s n = find (\<lambda>a. name a = n) (activities (txn s))"

text \<open>
  \<^verbatim>\<open>db.query(Participant).filter(Participant.activity_id == a, Participant.email == e).first()\<close>
\<close>

definition participant_of :: "session \<Rightarrow> int \<Rightarrow> string \<Rightarrow> participant option" where
  "participant_of s aid e =
     find (\<lambda>p. activity_id p = aid \<and> email p = e) (participants (txn s))"

text \<open>\<^verbatim>\<open>db.query(Participant).filter(Participant.activity_id == a)\<close>, as rows.\<close>

definition participants_of :: "db \<Rightarrow> int \<Rightarrow> participant list" where
  "participants_of d aid = filter (\<lambda>p. activity_id p = aid) (participants d)"

text \<open>The same query with \<^verbatim>\<open>.count()\<close>.\<close>

definition count_participants :: "session \<Rightarrow> int \<Rightarrow> int" where
  "count_participants s aid = int (length (participants_of (txn s) aid))"

text \<open>
  \<^verbatim>\<open>db.query(Participant.email).filter(Participant.activity_id == a).all()\<close> and the
  comprehension \<^verbatim>\<open>[p.email for p in participants]\<close> of \<^verbatim>\<open>get_activities\<close>.
\<close>

definition participant_emails :: "db \<Rightarrow> int \<Rightarrow> string list" where
  "participant_emails d aid = map email (participants_of d aid)"

subsection \<open>\<^verbatim>\<open>Activity.to_dict\<close>\<close>

record activity_dict =
  d_description :: string
  d_schedule :: string
  d_max_participants :: int
  d_participants :: "string list"

definition to_dict :: "activity \<Rightarrow> string list option \<Rightarrow> activity_dict" where
  "to_dict self ps =
     \<lparr>d_description = description self, d_schedule = schedule self,
      d_max_participants = max_participants self,
      d_participants = (case ps of None \<Rightarrow> [] | Some l \<Rightarrow> l)\<rparr>"

subsection \<open>\<^verbatim>\<open>seed_initial_data\<close>\<close>

record seed_entry =
  s_name :: string
  s_description :: string
  s_schedule :: string
  s_max_participants :: int
  s_participants :: "string list"

definition activities_data :: "seed_entry list" where
  "activities_data =
    [\<lparr>s_name = ''Chess Club'',
      s_description = ''Learn strategies and compete in chess tournaments'',
      s_schedule = ''Fridays, 3:30 PM - 5:00 PM'',
      s_max_participants = 12,
      s_participants = [''michael@mergington.edu'', ''daniel@mergington.edu'']\<rparr>,
     \<lparr>s_name = ''Programming Class'',
      s_description = ''Learn programming fundamentals and build software projects'',
      s_schedule = ''Tuesdays and Thursdays, 3:30 PM - 4:30 PM'',
      s_max_participants = 20,
      s_participants = [''emma@mergington.edu'', ''sophia@mergington.edu'']\<rparr>,
     \<lparr>s_name = ''Gym Class'',
      s_description = ''Physical education and sports activities'',
      s_schedule = ''Mondays, Wednesdays, Fridays, 2:00 PM - 3:00 PM'',
      s_max_participants = 30,
      s_participants = [''john@mergington.edu'', ''olivia@mergington.edu'']\<rparr>,
     \<lparr>s_name = ''Soccer Team'',
      s_description = ''Join the school soccer team and compete in matches'',
      s_schedule = ''Tuesdays and Thursdays, 4:00 PM - 5:30 PM'',
      s_max_participants = 22,
      s_participants = [''liam@mergington.edu'', ''noah@mergington.edu'']\<rparr>,
     \<lparr>s_name = ''Basketball Team'',
      s_description = ''Practice and play basketball with the school team'',
      s_schedule = ''Wednesdays and Fridays, 3:30 PM - 5:00 PM'',
      s_max_participants = 15,
      s_participants = [''ava@mergington.edu'', ''mia@mergington.edu'']\<rparr>,
     \<lparr>s_name = ''Art Club'',
      s_description = ''Explore your creativity through painting and drawing'',
      s_schedule = ''Thursdays, 3:30 PM - 5:00 PM'',
      s_max_participants = 15,
      s_participants = [''amelia@mergington.edu'', ''harper@mergington.edu'']\<rparr>,
     \<lparr>s_name = ''Drama Club'',
      s_description = ''Act, direct, and produce plays and performances'',
      s_schedule = ''Mondays and Wednesdays, 4:00 PM - 5:30 PM'',
      s_max_participants = 20,
      s_participants = [''ella@mergington.edu'', ''scarlett@mergington.edu'']\<rparr>,
     \<lparr>s_name = ''Math Club'',
      s_description = ''Solve challenging problems and participate in math competitions'',
      s_schedule = ''Tuesdays, 3:30 PM - 4:30 PM'',
      s_max_participants = 10,
      s_participants = [''james@mergington.edu'', ''benjamin@mergington.edu'']\<rparr>,
     \<lparr>s_name = ''Debate Team'',
      s_description = ''Develop public speaking and argumentation skills'',
      s_schedule = ''Fridays, 4:00 PM - 5:30 PM'',
      s_max_participants = 12,
      s_participants = [''charlotte@mergington.edu'', ''henry@mergington.edu'']\<rparr>]"

text \<open>
  The body of the loop \<^verbatim>\<open>for activity_data in activities_data\<close>: the activity is
  added and flushed, then one participant is added for each of its emails, with the key
  the flush gave the activity.
\<close>

definition seed_one :: "seed_entry \<Rightarrow> session \<Rightarrow> session" where
  "seed_one activity_data s =
     (let (activity, s1) = add_activity (s_name activity_data) (s_description activity_data)
                             (s_schedule activity_data) (s_max_participants activity_data) s
      in fold (\<lambda>e. add_participant (a_id activity) e) (s_participants activity_data) s1)"

text \<open>
  \<^verbatim>\<open>seed_initial_data\<close> opens a session of its own and closes it on every path. When
  the store already holds an activity it returns at once; otherwise it runs the loop and
  commits. The \<^verbatim>\<open>except\<close> branch (roll back and raise again) answers an error of the
  store; the inserts of this model have none.
\<close>

definition seed_initial_data :: "db \<Rightarrow> db" where
  "seed_initial_data d =
     (let s = SessionLocal d;
          existing_activities = int (length (activities (txn s)))
      in if existing_activities > 0 then close s
         else close (commit (fold seed_one activities_data s)))"

section \<open>The handlers (src/src/app.py)\<close>

datatype http_exception = HTTPException (status_code: int) (detail: string)

type_synonym message = "(string \<times> string) list"

text \<open>
  \<^verbatim>\<open>get_activities\<close>: the result dictionary is filled in the order of the activities;
  \<^verbatim>\<open>result[activity.name] = ...\<close> replaces the value of a name that is already a key
  and adds the name at the end otherwise, which is \<open>AList.update\<close>.
\<close>

definition get_activities :: "session \<Rightarrow> (string \<times> activity_dict) list \<times> session" where
  "get_activities s =
     (fold (\<lambda>activity result.
              AList.update (name activity)
                (to_dict activity (Some (participant_emails (txn s) (a_id activity)))) result)
           (activities (txn s)) [],
      s)"

definition signup_for_activity ::
  "string \<Rightarrow> string \<Rightarrow> session \<Rightarrow> (http_exception + message) \<times> session" where
  "signup_for_activity activity_name em s =
     (case activity_by_name s activity_name of
        None \<Rightarrow> (Inl (HTTPException 404 ''Activity not found''), s)
      | Some activity \<Rightarrow>
          (case participant_of s (a_id activity) em of
             Some existing_participant \<Rightarrow>
               (Inl (HTTPException 400 ''Student is already signed up''), s)
           | None \<Rightarrow>
               if count_participants s (a_id activity) \<ge> max_participants activity
               then (Inl (HTTPException 400 ''Activity is full''), s)
               else (Inr [(''message'', ''Signed up '' @ em @ '' for '' @ activity_name)],
                     commit (add_participant (a_id activity) em s))))"

definition unregister_from_activity ::
  "string \<Rightarrow> string \<Rightarrow> session \<Rightarrow> (http_exception + message) \<times> session" where
  "unregister_from_activity activity_name em s =
     (case activity_by_name s activity_name of
        None \<Rightarrow> (Inl (HTTPException 404 ''Activity not found''), s)
      | Some activity \<Rightarrow>
          (case participant_of s (a_id activity) em of
             None \<Rightarrow>
               (Inl (HTTPException 400 ''Student is not signed up for this activity''), s)
           | Some participant \<Rightarrow>
               (Inr [(''message'', ''Unregistered '' @ em @ '' from '' @ activity_name)],
                commit (delete_participant participant s))))"

text \<open>
  The dependency \<^verbatim>\<open>Depends(get_db)\<close>: every request runs its handler in a session
  opened on the store, and the session is closed when the handler returns or raises.
  The second component is the store after the request.
\<close>

definition get_db :: "(session \<Rightarrow> 'r \<times> session) \<Rightarrow> db \<Rightarrow> 'r \<times> db" where
  "get_db handler d = (let (r, s) = handler (SessionLocal d) in (r, close s))"

definition list_activities :: "db \<Rightarrow> (string \<times> activity_dict) list \<times> db" where
  "list_activities d = get_db get_activities d"

definition signup :: "string \<Rightarrow> string \<Rightarrow> db \<Rightarrow> (http_exception + message) \<times> db" where
  "signup activity_name em d = get_db (signup_for_activity activity_name em) d"

definition unregister :: "string \<Rightarrow> string \<Rightarrow> db \<Rightarrow> (http_exception + message) \<times> db" where
  "unregister activity_name em d = get_db (unregister_from_activity activity_name em) d"

text \<open>Requests applied one at a time, each to the store the one before left.\<close>

datatype request = ListActivities | Signup string string | Unregister string string

fun handle :: "request \<Rightarrow> db \<Rightarrow> db" where
  "handle ListActivities d = snd (list_activities d)"
| "handle (Signup n e) d = snd (signup n e d)"
| "handle (Unregister n e) d = snd (unregister n e d)"

definition run :: "request list \<Rightarrow> db \<Rightarrow> db" where
  "run rs d = fold handle rs d"

text \<open>The state the service starts from: the seed of an empty store.\<close>

definition seeded :: db where
  "seeded = seed_initial_data empty_db"

section \<open>Invariants of the store\<close>

text \<open>
  The keys of the activities are distinct, and no activity has more participant rows
  than its \<^verbatim>\<open>max_participants\<close>.
\<close>

definition within_capacity :: "db \<Rightarrow> bool" where
  "within_capacity d =
     (distinct (map a_id (activities d)) \<and>
      list_all (\<lambda>A. int (length (participants_of d (a_id A))) \<le> max_participants A)
        (activities d))"

text \<open>No two participant rows have the same activity and the same email.\<close>

definition unique_pairs :: "db \<Rightarrow> bool" where
  "unique_pairs d = distinct (map (\<lambda>p. (activity_id p, email p)) (participants d))"

section \<open>The handlers on the store\<close>

text \<open>
  What a request does to the store, with the session unfolded: the handler's checks in
  their order, and the store it leaves.
\<close>

lemma signup_unfold:
  "signup n e d =
     (case find (\<lambda>a. name a = n) (activities d) of
        None \<Rightarrow> (Inl (HTTPException 404 ''Activity not found''), d)
      | Some A \<Rightarrow>
          (case find (\<lambda>p. activity_id p = a_id A \<and> email p = e) (participants d) of
             Some x \<Rightarrow> (Inl (HTTPException 400 ''Student is already signed up''), d)
           | None \<Rightarrow>
               if int (length (participants_of d (a_id A))) \<ge> max_participants A
               then (Inl (HTTPException 400 ''Activity is full''), d)
               else (Inr [(''message'', ''Signed up '' @ e @ '' for '' @ n)],
                     d\<lparr>participants := participants d @
                          [\<lparr>p_id = next_rowid (map p_id (participants d)),
                            activity_id = a_id A, email = e\<rparr>]\<rparr>)))"
  by (simp add: signup_def get_db_def signup_for_activity_def SessionLocal_def close_def
      commit_def add_participant_def activity_by_name_def participant_of_def
      count_participants_def Let_def split: option.splits)

lemma unregister_unfold:
  "unregister n e d =
     (case find (\<lambda>a. name a = n) (activities d) of
        None \<Rightarrow> (Inl (HTTPException 404 ''Activity not found''), d)
      | Some A \<Rightarrow>
          (case find (\<lambda>p. activity_id p = a_id A \<and> email p = e) (participants d) of
             None \<Rightarrow> (Inl (HTTPException 400 ''Student is not signed up for this activity''), d)
           | Some x \<Rightarrow>
               (Inr [(''message'', ''Unregistered '' @ e @ '' from '' @ n)],
                d\<lparr>participants := filter (\<lambda>q. p_id q \<noteq> p_id x) (participants d)\<rparr>)))"
  by (simp add: unregister_def get_db_def unregister_from_activity_def SessionLocal_def
      close_def commit_def delete_participant_def activity_by_name_def participant_of_def
      Let_def split: option.splits)

section \<open>The seeded store\<close>

lemma seeded_eq:
  "seeded =
    \<lparr>activities =
      [\<lparr>a_id = 1, name = ''Chess Club'',
        description = ''Learn strategies and compete in chess tournaments'',
        schedule = ''Fridays, 3:30 PM - 5:00 PM'',
        max_participants = 12\<rparr>,
       \<lparr>a_id = 2, name = ''Programming Class'',
        description = ''Learn programming fundamentals and build software projects'',
        schedule = ''Tuesdays and Thursdays, 3:30 PM - 4:30 PM'',
        max_participants = 20\<rparr>,
       \<lparr>a_id = 3, name = ''Gym Class'',
        description = ''Physical education and sports activities'',
        schedule = ''Mondays, Wednesdays, Fridays, 2:00 PM - 3:00 PM'',
        max_participants = 30\<rparr>,
       \<lparr>a_id = 4, name = ''Soccer Team'',
        description = ''Join the school soccer team and compete in matches'',
        schedule = ''Tuesdays and Thursdays, 4:00 PM - 5:30 PM'',
        max_participants = 22\<rparr>,
       \<lparr>a_id = 5, name = ''Basketball Team'',
        description = ''Practice and play basketball with the school team'',
        schedule = ''Wednesdays and Fridays, 3:30 PM - 5:00 PM'',
        max_participants = 15\<rparr>,
       \<lparr>a_id = 6, name = ''Art Club'',
        description = ''Explore your creativity through painting and drawing'',
        schedule = ''Thursdays, 3:30 PM - 5:00 PM'',
        max_participants = 15\<rparr>,
       \<lparr>a_id = 7, name = ''Drama Club'',
        description = ''Act, direct, and produce plays and performances'',
        schedule = ''Mondays and Wednesdays, 4:00 PM - 5:30 PM'',
        max_participants = 20\<rparr>,
       \<lparr>a_id = 8, name = ''Math Club'',
        description = ''Solve challenging problems and participate in math competitions'',
        schedule = ''Tuesdays, 3:30 PM - 4:30 PM'',
        max_participants = 10\<rparr>,
       \<lparr>a_id = 9, name = ''Debate Team'',
        description = ''Develop public speaking and argumentation skills'',
        schedule = ''Fridays, 4:00 PM - 5:30 PM'',
        max_participants = 12\<rparr>],
     participants =
      [\<lparr>p_id = 1, activity_id = 1, email = ''michael@mergington.edu''\<rparr>,
       \<lparr>p_id = 2, activity_id = 1, email = ''daniel@mergington.edu''\<rparr>,
       \<lparr>p_id = 3, activity_id = 2, email = ''emma@mergington.edu''\<rparr>,
       \<lparr>p_id = 4, activity_id = 2, email = ''sophia@mergington.edu''\<rparr>,
       \<lparr>p_id = 5, activity_id = 3, email = ''john@mergington.edu''\<rparr>,
       \<lparr>p_id = 6, activity_id = 3, email = ''olivia@mergington.edu''\<rparr>,
       \<lparr>p_id = 7, activity_id = 4, email = ''liam@mergington.edu''\<rparr>,
       \<lparr>p_id = 8, activity_id = 4, email = ''noah@mergington.edu''\<rparr>,
       \<lparr>p_id = 9, activity_id = 5, email = ''ava@mergington.edu''\<rparr>,
       \<lparr>p_id = 10, activity_id = 5, email = ''mia@mergington.edu''\<rparr>,
       \<lparr>p_id = 11, activity_id = 6, email = ''amelia@mergington.edu''\<rparr>,
       \<lparr>p_id = 12, activity_id = 6, email = ''harper@mergington.edu''\<rparr>,
       \<lparr>p_id = 13, activity_id = 7, email = ''ella@mergington.edu''\<rparr>,
       \<lparr>p_id = 14, activity_id = 7, email = ''scarlett@mergington.edu''\<rparr>,
       \<lparr>p_id = 15, activity_id = 8, email = ''james@mergington.edu''\<rparr>,
       \<lparr>p_id = 16, activity_id = 8, email = ''benjamin@mergington.edu''\<rparr>,
       \<lparr>p_id = 17, activity_id = 9, email = ''charlotte@mergington.edu''\<rparr>,
       \<lparr>p_id = 18, activity_id = 9, email = ''henry@mergington.edu''\<rparr>]\<rparr>"
  by (simp add: seeded_def seed_initial_data_def empty_db_def SessionLocal_def close_def
      commit_def activities_data_def seed_one_def add_activity_def add_participant_def
      next_rowid_def Let_def)

section \<open>Auxiliary facts\<close>

lemma next_rowid_fresh: "x \<in> set ids \<Longrightarrow> x < next_rowid ids"
proof -
  assume a: "x \<in> set ids"
  then have "x \<le> Max (set ids)" by simp
  with a show ?thesis by (auto simp: next_rowid_def)
qed

lemma find_append_new:
  "find P xs = None \<Longrightarrow> P x \<Longrightarrow> find P (xs @ [x]) = Some x"
  by (induction xs) (auto split: if_splits)

lemma find_Some_mem: "find P xs = Some x \<Longrightarrow> x \<in> set xs \<and> P x"
  by (induction xs) (auto split: if_splits)

lemma length_filter_filter: "length (filter P (filter Q xs)) \<le> length (filter P xs)"
  by (induction xs) auto

lemma unregister_participants_of:
  "length (participants_of (snd (unregister n e d)) a) \<le> length (participants_of d a)"
proof -
  have "participants_of (d\<lparr>participants := filter Q (participants d)\<rparr>) a =
        filter (\<lambda>p. activity_id p = a) (filter Q (participants d))" for Q
    by (simp add: participants_of_def)
  then show ?thesis
    unfolding unregister_unfold
    by (auto simp: participants_of_def length_filter_filter simp del: filter_filter
        split: option.splits)
qed

lemma list_activities_state: "snd (list_activities d) = d"
  by (simp add: list_activities_def get_db_def get_activities_def SessionLocal_def close_def)

lemma signup_activities: "activities (snd (signup n e d)) = activities d"
  by (simp add: signup_unfold split: option.splits)

lemma unregister_activities: "activities (snd (unregister n e d)) = activities d"
  by (simp add: unregister_unfold split: option.splits)

lemma handle_activities: "activities (handle r d) = activities d"
  by (cases r) (simp_all add: list_activities_state signup_activities unregister_activities)

lemma run_activities: "activities (run rs d) = activities d"
  unfolding run_def by (induction rs arbitrary: d) (simp_all add: handle_activities)

section \<open>Capacity\<close>

lemma within_capacity_seeded: "within_capacity seeded"
  by (simp add: seeded_eq within_capacity_def participants_of_def)

lemma within_capacity_signup:
  assumes "within_capacity d"
  shows "within_capacity (snd (signup n e d))"
proof (cases "find (\<lambda>a. name a = n) (activities d)")
  case None
  with assms show ?thesis by (simp add: signup_unfold)
next
  case (Some A)
  note fA = this
  then have inA: "A \<in> set (activities d)" by (simp add: find_Some_mem)
  show ?thesis
  proof (cases "find (\<lambda>p. activity_id p = a_id A \<and> email p = e) (participants d)")
    case (Some x)
    with fA assms show ?thesis by (simp add: signup_unfold)
  next
    case None
    show ?thesis
    proof (cases "int (length (participants_of d (a_id A))) \<ge> max_participants A")
      case True
      with fA None assms show ?thesis by (simp add: signup_unfold)
    next
      case room: False
      have dist: "distinct (map a_id (activities d))"
        using assms by (simp add: within_capacity_def)
      have same: "B = A" if "B \<in> set (activities d)" "a_id B = a_id A" for B
        using dist inA that by (meson distinct_map inj_onD)
      have after: "participants (snd (signup n e d)) =
          participants d @ [\<lparr>p_id = next_rowid (map p_id (participants d)),
                               activity_id = a_id A, email = e\<rparr>]"
        using fA None room by (simp add: signup_unfold)
      have "int (length (participants_of (snd (signup n e d)) (a_id B))) \<le> max_participants B"
        if "B \<in> set (activities d)" for B
      proof (cases "a_id B = a_id A")
        case True
        then have "B = A" using same that by simp
        with room show ?thesis
          by (simp add: after participants_of_def)
      next
        case False
        moreover have "int (length (participants_of d (a_id B))) \<le> max_participants B"
          using assms that by (simp add: within_capacity_def list_all_iff)
        ultimately show ?thesis
          by (simp add: after participants_of_def)
      qed
      with dist show ?thesis
        by (simp add: within_capacity_def list_all_iff signup_activities)
    qed
  qed
qed

lemma within_capacity_unregister:
  assumes "within_capacity d"
  shows "within_capacity (snd (unregister n e d))"
proof -
  have "int (length (participants_of (snd (unregister n e d)) (a_id B))) \<le> max_participants B"
    if "int (length (participants_of d (a_id B))) \<le> max_participants B" for B
    using that unregister_participants_of [of n e d "a_id B"] by linarith
  with assms show ?thesis
    by (auto simp: within_capacity_def list_all_iff unregister_activities)
qed

lemma within_capacity_handle: "within_capacity d \<Longrightarrow> within_capacity (handle r d)"
  by (cases r)
    (simp_all add: list_activities_state within_capacity_signup within_capacity_unregister)

lemma within_capacity_run: "within_capacity d \<Longrightarrow> within_capacity (run rs d)"
  unfolding run_def by (induction rs arbitrary: d) (simp_all add: within_capacity_handle)

text \<open>
  Claim C1. Start from the seeded store and apply any sequence of requests (signup,
  unregister, list) one at a time. In the store that results, every activity \<open>A\<close> has at
  most \<open>max_participants A\<close> participant rows that reference it.
\<close>

theorem capacity_never_exceeded:
  "A \<in> set (activities (run rs seeded)) \<Longrightarrow>
     int (length (filter (\<lambda>p. activity_id p = a_id A) (participants (run rs seeded))))
       \<le> max_participants A"
  using within_capacity_run [OF within_capacity_seeded, of rs]
  by (simp add: within_capacity_def list_all_iff participants_of_def)


theorem capacity_never_exceeded_witness:
  "\<lparr>a_id = 1, name = ''Chess Club'',
     description = ''Learn strategies and compete in chess tournaments'',
     schedule = ''Fridays, 3:30 PM - 5:00 PM'', max_participants = 12\<rparr>
     \<in> set (activities (run [Signup ''Chess Club'' ''new@mergington.edu'',
                               Unregister ''Chess Club'' ''daniel@mergington.edu'',
                               Signup ''Chess Club'' ''zoe@mergington.edu''] seeded)) \<and>
   int (length (filter (\<lambda>p. activity_id p = 1)
          (participants
            (run [Signup ''Chess Club'' ''new@mergington.edu'',
                  Unregister ''Chess Club'' ''daniel@mergington.edu'',
                  Signup ''Chess Club'' ''zoe@mergington.edu''] seeded)))) \<le> 12"
  using capacity_never_exceeded
    [of "\<lparr>a_id = 1, name = ''Chess Club'',
          description = ''Learn strategies and compete in chess tournaments'',
          schedule = ''Fridays, 3:30 PM - 5:00 PM'', max_participants = 12\<rparr>"
        "[Signup ''Chess Club'' ''new@mergington.edu'',
          Unregister ''Chess Club'' ''daniel@mergington.edu'',
          Signup ''Chess Club'' ''zoe@mergington.edu'']"]
  by (simp add: run_activities seeded_eq)

section \<open>One row for an activity and an email\<close>

lemma unique_pairs_seeded: "unique_pairs seeded"
  by (simp add: seeded_eq unique_pairs_def)

lemma unique_pairs_signup:
  assumes "unique_pairs d"
  shows "unique_pairs (snd (signup n e d))"
proof -
  have "(a, e) \<notin> set (map (\<lambda>p. (activity_id p, email p)) (participants d))"
    if "find (\<lambda>p. activity_id p = a \<and> email p = e) (participants d) = None" for a
    using that by (auto simp: find_None_iff)
  with assms show ?thesis
    by (auto simp: signup_unfold unique_pairs_def split: option.splits)
qed

lemma unique_pairs_unregister:
  "unique_pairs d \<Longrightarrow> unique_pairs (snd (unregister n e d))"
  by (auto simp: unregister_unfold unique_pairs_def distinct_map_filter split: option.splits)

lemma unique_pairs_handle: "unique_pairs d \<Longrightarrow> unique_pairs (handle r d)"
  by (cases r)
    (simp_all add: list_activities_state unique_pairs_signup unique_pairs_unregister)

lemma unique_pairs_run: "unique_pairs d \<Longrightarrow> unique_pairs (run rs d)"
  unfolding run_def by (induction rs arbitrary: d) (simp_all add: unique_pairs_handle)

lemma distinct_map_filter_le1:
  "distinct (map f xs) \<Longrightarrow> length (filter (\<lambda>x. f x = k) xs) \<le> 1"
  by (induction xs) (auto simp: filter_empty_conv image_iff)

lemma unique_pairs_le1:
  assumes "unique_pairs d"
  shows "length (filter (\<lambda>p. activity_id p = a \<and> email p = e) (participants d)) \<le> 1"
proof -
  have "(\<lambda>p. activity_id p = a \<and> email p = e) = (\<lambda>p. (activity_id p, email p) = (a, e))"
    by auto
  with distinct_map_filter_le1 [OF assms [unfolded unique_pairs_def], of "(a, e)"]
  show ?thesis by simp
qed

text \<open>
  Claim C2. In every store reached from the seeded store by a sequence of requests applied
  one at a time, and for every activity \<open>A\<close> and email \<open>e\<close>, at most one participant row
  has \<open>activity_id = a_id A\<close> and \<open>email = e\<close>.
\<close>

theorem pair_at_most_once:
  "length (filter (\<lambda>p. activity_id p = a_id A \<and> email p = e)
             (participants (run rs seeded))) \<le> 1"
  by (rule unique_pairs_le1 [OF unique_pairs_run [OF unique_pairs_seeded]])

theorem pair_at_most_once_witness:
  "length (filter (\<lambda>p. activity_id p = 1 \<and> email p = ''new@mergington.edu'')
             (participants (run [Signup ''Chess Club'' ''new@mergington.edu'',
                                 Signup ''Chess Club'' ''new@mergington.edu''] seeded))) \<le> 1"
  using pair_at_most_once
    [of "\<lparr>a_id = 1, name = ''Chess Club'',
          description = ''Learn strategies and compete in chess tournaments'',
          schedule = ''Fridays, 3:30 PM - 5:00 PM'', max_participants = 12\<rparr>"
        "''new@mergington.edu''"
        "[Signup ''Chess Club'' ''new@mergington.edu'',
          Signup ''Chess Club'' ''new@mergington.edu'']"]
  by simp

section \<open>The checks of signup and unregister\<close>

lemma find_None_ball: "(find P xs = None) = (\<forall>x\<in>set xs. \<not> P x)"
  by (auto simp: find_None_iff)

text \<open>
  Claim C3. For every store, activity name and email, signup evaluates its checks in
  order. When no activity has the name it fails with 404 "Activity not found". Otherwise,
  with \<open>A\<close> the activity of that name, when a participant row for \<open>A\<close> and the email
  exists it fails with 400 "Student is already signed up"; this check comes before the
  capacity check, so a second signup to a full activity gets this error and not
  "Activity is full". Otherwise, when the number of participant rows whose
  \<open>activity_id\<close> is \<open>a_id A\<close> is not below \<open>max_participants A\<close>, it fails with 400
  "Activity is full". Otherwise it inserts the participant row and succeeds. A failed
  signup leaves the store as it was.
\<close>

theorem signup_checks_in_order:
  "((\<forall>a\<in>set (activities d). name a \<noteq> n) \<longrightarrow>
      signup n e d = (Inl (HTTPException 404 ''Activity not found''), d)) \<and>
   (find (\<lambda>a. name a = n) (activities d) = Some A \<and>
    (\<exists>p\<in>set (participants d). activity_id p = a_id A \<and> email p = e) \<longrightarrow>
      signup n e d = (Inl (HTTPException 400 ''Student is already signed up''), d)) \<and>
   (find (\<lambda>a. name a = n) (activities d) = Some A \<and>
    \<not> (\<exists>p\<in>set (participants d). activity_id p = a_id A \<and> email p = e) \<and>
    \<not> int (length (filter (\<lambda>p. activity_id p = a_id A) (participants d)))
        < max_participants A \<longrightarrow>
      signup n e d = (Inl (HTTPException 400 ''Activity is full''), d)) \<and>
   (find (\<lambda>a. name a = n) (activities d) = Some A \<and>
    \<not> (\<exists>p\<in>set (participants d). activity_id p = a_id A \<and> email p = e) \<and>
    int (length (filter (\<lambda>p. activity_id p = a_id A) (participants d)))
        < max_participants A \<longrightarrow>
      signup n e d =
        (Inr [(''message'', ''Signed up '' @ e @ '' for '' @ n)],
         d\<lparr>participants := participants d @
            [\<lparr>p_id = next_rowid (map p_id (participants d)),
              activity_id = a_id A, email = e\<rparr>]\<rparr>))"
proof (intro conjI impI)
  assume "\<forall>a\<in>set (activities d). name a \<noteq> n"
  then have "find (\<lambda>a. name a = n) (activities d) = None"
    by (simp add: find_None_ball)
  then show "signup n e d = (Inl (HTTPException 404 ''Activity not found''), d)"
    by (simp add: signup_unfold)
next
  assume h: "find (\<lambda>a. name a = n) (activities d) = Some A \<and>
    (\<exists>p\<in>set (participants d). activity_id p = a_id A \<and> email p = e)"
  then have "find (\<lambda>p. activity_id p = a_id A \<and> email p = e) (participants d) \<noteq> None"
    by (simp add: find_None_ball)
  with h show "signup n e d = (Inl (HTTPException 400 ''Student is already signed up''), d)"
    by (auto simp: signup_unfold)
next
  assume h: "find (\<lambda>a. name a = n) (activities d) = Some A \<and>
    \<not> (\<exists>p\<in>set (participants d). activity_id p = a_id A \<and> email p = e) \<and>
    \<not> int (length (filter (\<lambda>p. activity_id p = a_id A) (participants d)))
        < max_participants A"
  then have "find (\<lambda>p. activity_id p = a_id A \<and> email p = e) (participants d) = None"
    by (simp add: find_None_ball)
  with h show "signup n e d = (Inl (HTTPException 400 ''Activity is full''), d)"
    by (simp add: signup_unfold participants_of_def)
next
  assume h: "find (\<lambda>a. name a = n) (activities d) = Some A \<and>
    \<not> (\<exists>p\<in>set (participants d). activity_id p = a_id A \<and> email p = e) \<and>
    int (length (filter (\<lambda>p. activity_id p = a_id A) (participants d)))
        < max_participants A"
  then have "find (\<lambda>p. activity_id p = a_id A \<and> email p = e) (participants d) = None"
    by (simp add: find_None_ball)
  with h show "signup n e d =
        (Inr [(''message'', ''Signed up '' @ e @ '' for '' @ n)],
         d\<lparr>participants := participants d @
            [\<lparr>p_id = next_rowid (map p_id (participants d)),
              activity_id = a_id A, email = e\<rparr>]\<rparr>)"
    by (simp add: signup_unfold participants_of_def)
qed

theorem signup_checks_in_order_witness:
  "signup ''Golf'' ''john@mergington.edu''
      \<lparr>activities =
         [\<lparr>a_id = 1, name = ''Chess Club'', description = ''Chess'',
           schedule = ''Fridays'', max_participants = 2\<rparr>,
          \<lparr>a_id = 2, name = ''Gym Class'', description = ''Gym'',
           schedule = ''Mondays'', max_participants = 1\<rparr>],
       participants =
         [\<lparr>p_id = 1, activity_id = 1, email = ''michael@mergington.edu''\<rparr>,
          \<lparr>p_id = 2, activity_id = 2, email = ''john@mergington.edu''\<rparr>]\<rparr> =
     (Inl (HTTPException 404 ''Activity not found''),
      \<lparr>activities =
         [\<lparr>a_id = 1, name = ''Chess Club'', description = ''Chess'',
           schedule = ''Fridays'', max_participants = 2\<rparr>,
          \<lparr>a_id = 2, name = ''Gym Class'', description = ''Gym'',
           schedule = ''Mondays'', max_participants = 1\<rparr>],
       participants =
         [\<lparr>p_id = 1, activity_id = 1, email = ''michael@mergington.edu''\<rparr>,
          \<lparr>p_id = 2, activity_id = 2, email = ''john@mergington.edu''\<rparr>]\<rparr>) \<and>
   signup ''Gym Class'' ''john@mergington.edu''
      \<lparr>activities =
         [\<lparr>a_id = 1, name = ''Chess Club'', description = ''Chess'',
           schedule = ''Fridays'', max_participants = 2\<rparr>,
          \<lparr>a_id = 2, name = ''Gym Class'', description = ''Gym'',
           schedule = ''Mondays'', max_participants = 1\<rparr>],
       participants =
         [\<lparr>p_id = 1, activity_id = 1, email = ''michael@mergington.edu''\<rparr>,
          \<lparr>p_id = 2, activity_id = 2, email = ''john@mergington.edu''\<rparr>]\<rparr> =
     (Inl (HTTPException 400 ''Student is already signed up''),
      \<lparr>activities =
         [\<lparr>a_id = 1, name = ''Chess Club'', description = ''Chess'',
           schedule = ''Fridays'', max_participants = 2\<rparr>,
          \<lparr>a_id = 2, name = ''Gym Class'', description = ''Gym'',
           schedule = ''Mondays'', max_participants = 1\<rparr>],
       participants =
         [\<lparr>p_id = 1, activity_id = 1, email = ''michael@mergington.edu''\<rparr>,
          \<lparr>p_id = 2, activity_id = 2, email = ''john@mergington.edu''\<rparr>]\<rparr>) \<and>
   signup ''Gym Class'' ''daniel@mergington.edu''
      \<lparr>activities =
         [\<lparr>a_id = 1, name = ''Chess Club'', description = ''Chess'',
           schedule = ''Fridays'', max_participants = 2\<rparr>,
          \<lparr>a_id = 2, name = ''Gym Class'', description = ''Gym'',
           schedule = ''Mondays'', max_participants = 1\<rparr>],
       participants =
         [\<lparr>p_id = 1, activity_id = 1, email = ''michael@mergington.edu''\<rparr>,
          \<lparr>p_id = 2, activity_id = 2, email = ''john@mergington.edu''\<rparr>]\<rparr> =
     (Inl (HTTPException 400 ''Activity is full''),
      \<lparr>activities =
         [\<lparr>a_id = 1, name = ''Chess Club'', description = ''Chess'',
           schedule = ''Fridays'', max_participants = 2\<rparr>,
          \<lparr>a_id = 2, name = ''Gym Class'', description = ''Gym'',
           schedule = ''Mondays'', max_participants = 1\<rparr>],
       participants =
         [\<lparr>p_id = 1, activity_id = 1, email = ''michael@mergington.edu''\<rparr>,
          \<lparr>p_id = 2, activity_id = 2, email = ''john@mergington.edu''\<rparr>]\<rparr>) \<and>
   signup ''Chess Club'' ''daniel@mergington.edu''
      \<lparr>activities =
         [\<lparr>a_id = 1, name = ''Chess Club'', description = ''Chess'',
           schedule = ''Fridays'', max_participants = 2\<rparr>,
          \<lparr>a_id = 2, name = ''Gym Class'', description = ''Gym'',
           schedule = ''Mondays'', max_participants = 1\<rparr>],
       participants =
         [\<lparr>p_id = 1, activity_id = 1, email = ''michael@mergington.edu''\<rparr>,
          \<lparr>p_id = 2, activity_id = 2, email = ''john@mergington.edu''\<rparr>]\<rparr> =
     (Inr [(''message'', ''Signed up daniel@mergington.edu for Chess Club'')],
      \<lparr>activities =
         [\<lparr>a_id = 1, name = ''Chess Club'', description = ''Chess'',
           schedule = ''Fridays'', max_participants = 2\<rparr>,
          \<lparr>a_id = 2, name = ''Gym Class'', description = ''Gym'',
           schedule = ''Mondays'', max_participants = 1\<rparr>],
       participants =
         [\<lparr>p_id = 1, activity_id = 1, email = ''michael@mergington.edu''\<rparr>,
          \<lparr>p_id = 2, activity_id = 2, email = ''john@mergington.edu''\<rparr>,
          \<lparr>p_id = 3, activity_id = 1, email = ''daniel@mergington.edu''\<rparr>]\<rparr>) \<and>
   fst (signup ''Chess Club'' ''new@mergington.edu'' seeded) =
     Inr [(''message'', ''Signed up new@mergington.edu for Chess Club'')]"
proof -
  have missing: "signup ''Golf'' ''john@mergington.edu''
      \<lparr>activities =
         [\<lparr>a_id = 1, name = ''Chess Club'', description = ''Chess'',
           schedule = ''Fridays'', max_participants = 2\<rparr>,
          \<lparr>a_id = 2, name = ''Gym Class'', description = ''Gym'',
           schedule = ''Mondays'', max_participants = 1\<rparr>],
       participants =
         [\<lparr>p_id = 1, activity_id = 1, email = ''michael@mergington.edu''\<rparr>,
          \<lparr>p_id = 2, activity_id = 2, email = ''john@mergington.edu''\<rparr>]\<rparr> =
     (Inl (HTTPException 404 ''Activity not found''),
      \<lparr>activities =
         [\<lparr>a_id = 1, name = ''Chess Club'', description = ''Chess'',
           schedule = ''Fridays'', max_participants = 2\<rparr>,
          \<lparr>a_id = 2, name = ''Gym Class'', description = ''Gym'',
           schedule = ''Mondays'', max_participants = 1\<rparr>],
       participants =
         [\<lparr>p_id = 1, activity_id = 1, email = ''michael@mergington.edu''\<rparr>,
          \<lparr>p_id = 2, activity_id = 2, email = ''john@mergington.edu''\<rparr>]\<rparr>)"
    using signup_checks_in_order [where n = "''Golf''" and e = "''john@mergington.edu''"
      and d = "\<lparr>activities =
         [\<lparr>a_id = 1, name = ''Chess Club'', description = ''Chess'',
           schedule = ''Fridays'', max_participants = 2\<rparr>,
          \<lparr>a_id = 2, name = ''Gym Class'', description = ''Gym'',
           schedule = ''Mondays'', max_participants = 1\<rparr>],
       participants =
         [\<lparr>p_id = 1, activity_id = 1, email = ''michael@mergington.edu''\<rparr>,
          \<lparr>p_id = 2, activity_id = 2, email = ''john@mergington.edu''\<rparr>]\<rparr>"]
    by simp
  have duplicate: "signup ''Gym Class'' ''john@mergington.edu''
      \<lparr>activities =
         [\<lparr>a_id = 1, name = ''Chess Club'', description = ''Chess'',
           schedule = ''Fridays'', max_participants = 2\<rparr>,
          \<lparr>a_id = 2, name = ''Gym Class'', description = ''Gym'',
           schedule = ''Mondays'', max_participants = 1\<rparr>],
       participants =
         [\<lparr>p_id = 1, activity_id = 1, email = ''michael@mergington.edu''\<rparr>,
          \<lparr>p_id = 2, activity_id = 2, email = ''john@mergington.edu''\<rparr>]\<rparr> =
     (Inl (HTTPException 400 ''Student is already signed up''),
      \<lparr>activities =
         [\<lparr>a_id = 1, name = ''Chess Club'', description = ''Chess'',
           schedule = ''Fridays'', max_participants = 2\<rparr>,
          \<lparr>a_id = 2, name = ''Gym Class'', description = ''Gym'',
           schedule = ''Mondays'', max_participants = 1\<rparr>],
       participants =
         [\<lparr>p_id = 1, activity_id = 1, email = ''michael@mergington.edu''\<rparr>,
          \<lparr>p_id = 2, activity_id = 2, email = ''john@mergington.edu''\<rparr>]\<rparr>)"
    using signup_checks_in_order [where n = "''Gym Class''" and e = "''john@mergington.edu''"
      and A = "\<lparr>a_id = 2, name = ''Gym Class'', description = ''Gym'',
          schedule = ''Mondays'', max_participants = 1\<rparr>"
      and d = "\<lparr>activities =
         [\<lparr>a_id = 1, name = ''Chess Club'', description = ''Chess'',
           schedule = ''Fridays'', max_participants = 2\<rparr>,
          \<lparr>a_id = 2, name = ''Gym Class'', description = ''Gym'',
           schedule = ''Mondays'', max_participants = 1\<rparr>],
       participants =
         [\<lparr>p_id = 1, activity_id = 1, email = ''michael@mergington.edu''\<rparr>,
          \<lparr>p_id = 2, activity_id = 2, email = ''john@mergington.edu''\<rparr>]\<rparr>"]
    by simp
  have full: "signup ''Gym Class'' ''daniel@mergington.edu''
      \<lparr>activities =
         [\<lparr>a_id = 1, name = ''Chess Club'', description = ''Chess'',
           schedule = ''Fridays'', max_participants = 2\<rparr>,
          \<lparr>a_id = 2, name = ''Gym Class'', description = ''Gym'',
           schedule = ''Mondays'', max_participants = 1\<rparr>],
       participants =
         [\<lparr>p_id = 1, activity_id = 1, email = ''michael@mergington.edu''\<rparr>,
          \<lparr>p_id = 2, activity_id = 2, email = ''john@mergington.edu''\<rparr>]\<rparr> =
     (Inl (HTTPException 400 ''Activity is full''),
      \<lparr>activities =
         [\<lparr>a_id = 1, name = ''Chess Club'', description = ''Chess'',
           schedule = ''Fridays'', max_participants = 2\<rparr>,
          \<lparr>a_id = 2, name = ''Gym Class'', description = ''Gym'',
           schedule = ''Mondays'', max_participants = 1\<rparr>],
       participants =
         [\<lparr>p_id = 1, activity_id = 1, email = ''michael@mergington.edu''\<rparr>,
          \<lparr>p_id = 2, activity_id = 2, email = ''john@mergington.edu''\<rparr>]\<rparr>)"
    using signup_checks_in_order [where n = "''Gym Class''" and e = "''daniel@mergington.edu''"
      and A = "\<lparr>a_id = 2, name = ''Gym Class'', description = ''Gym'',
          schedule = ''Mondays'', max_participants = 1\<rparr>"
      and d = "\<lparr>activities =
         [\<lparr>a_id = 1, name = ''Chess Club'', description = ''Chess'',
           schedule = ''Fridays'', max_participants = 2\<rparr>,
          \<lparr>a_id = 2, name = ''Gym Class'', description = ''Gym'',
           schedule = ''Mondays'', max_participants = 1\<rparr>],
       participants =
         [\<lparr>p_id = 1, activity_id = 1, email = ''michael@mergington.edu''\<rparr>,
          \<lparr>p_id = 2, activity_id = 2, email = ''john@mergington.edu''\<rparr>]\<rparr>"]
    by simp
  have room: "signup ''Chess Club'' ''daniel@mergington.edu''
      \<lparr>activities =
         [\<lparr>a_id = 1, name = ''Chess Club'', description = ''Chess'',
           schedule = ''Fridays'', max_participants = 2\<rparr>,
          \<lparr>a_id = 2, name = ''Gym Class'', description = ''Gym'',
           schedule = ''Mondays'', max_participants = 1\<rparr>],
       participants =
         [\<lparr>p_id = 1, activity_id = 1, email = ''michael@mergington.edu''\<rparr>,
          \<lparr>p_id = 2, activity_id = 2, email = ''john@mergington.edu''\<rparr>]\<rparr> =
     (Inr [(''message'', ''Signed up daniel@mergington.edu for Chess Club'')],
      \<lparr>activities =
         [\<lparr>a_id = 1, name = ''Chess Club'', description = ''Chess'',
           schedule = ''Fridays'', max_participants = 2\<rparr>,
          \<lparr>a_id = 2, name = ''Gym Class'', description = ''Gym'',
           schedule = ''Mondays'', max_participants = 1\<rparr>],
       participants =
         [\<lparr>p_id = 1, activity_id = 1, email = ''michael@mergington.edu''\<rparr>,
          \<lparr>p_id = 2, activity_id = 2, email = ''john@mergington.edu''\<rparr>,
          \<lparr>p_id = 3, activity_id = 1, email = ''daniel@mergington.edu''\<rparr>]\<rparr>)"
    using signup_checks_in_order [where n = "''Chess Club''" and e = "''daniel@mergington.edu''"
      and A = "\<lparr>a_id = 1, name = ''Chess Club'', description = ''Chess'',
          schedule = ''Fridays'', max_participants = 2\<rparr>"
      and d = "\<lparr>activities =
         [\<lparr>a_id = 1, name = ''Chess Club'', description = ''Chess'',
           schedule = ''Fridays'', max_participants = 2\<rparr>,
          \<lparr>a_id = 2, name = ''Gym Class'', description = ''Gym'',
           schedule = ''Mondays'', max_participants = 1\<rparr>],
       participants =
         [\<lparr>p_id = 1, activity_id = 1, email = ''michael@mergington.edu''\<rparr>,
          \<lparr>p_id = 2, activity_id = 2, email = ''john@mergington.edu''\<rparr>]\<rparr>"]
    by (simp add: next_rowid_def)
  have on_seed: "fst (signup ''Chess Club'' ''new@mergington.edu'' seeded) =
     Inr [(''message'', ''Signed up new@mergington.edu for Chess Club'')]"
    using signup_checks_in_order [where n = "''Chess Club''" and e = "''new@mergington.edu''"
      and A = "\<lparr>a_id = 1, name = ''Chess Club'',
          description = ''Learn strategies and compete in chess tournaments'',
          schedule = ''Fridays, 3:30 PM - 5:00 PM'', max_participants = 12\<rparr>"
      and d = seeded]
    by (simp add: seeded_eq)
  from missing duplicate full room on_seed show ?thesis
    by (intro conjI)
qed

lemma find_None_filter_iff: "(find P xs = None) = (filter P xs = [])"
  by (induction xs) auto

lemma filter_key_removes:
  "length (filter P xs) \<le> 1 \<Longrightarrow> x \<in> set xs \<Longrightarrow> P x \<Longrightarrow>
     filter P (filter (\<lambda>q. f q \<noteq> f x) xs) = []"
proof (induction xs)
  case Nil
  then show ?case by simp
next
  case (Cons y ys)
  show ?case
  proof (cases "P y")
    case True
    with Cons.prems have none: "filter P ys = []" by simp
    then have "filter P (filter (\<lambda>q. f q \<noteq> f x) ys) = []"
      by (auto simp: filter_empty_conv)
    moreover have "x = y"
      using none Cons.prems(2,3) by (auto simp: filter_empty_conv)
    ultimately show ?thesis by simp
  next
    case False
    with Cons show ?thesis by auto
  qed
qed

lemma unregister_twice:
  assumes fA: "find (\<lambda>a. name a = n) (activities d) = Some A"
    and le1: "length (filter (\<lambda>p. activity_id p = a_id A \<and> email p = e) (participants d)) \<le> 1"
    and ok: "fst (unregister n e d) = Inr m"
  shows "unregister n e (snd (unregister n e d)) =
        (Inl (HTTPException 400 ''Student is not signed up for this activity''),
         snd (unregister n e d))"
proof -
  from fA ok obtain x
    where fx: "find (\<lambda>p. activity_id p = a_id A \<and> email p = e) (participants d) = Some x"
    by (auto simp: unregister_unfold split: option.splits)
  then have x: "x \<in> set (participants d)" "activity_id x = a_id A \<and> email x = e"
    by (auto dest: find_Some_mem)
  have res: "snd (unregister n e d) =
      d\<lparr>participants := filter (\<lambda>q. p_id q \<noteq> p_id x) (participants d)\<rparr>"
    by (simp add: unregister_unfold fA fx)
  have "filter (\<lambda>p. activity_id p = a_id A \<and> email p = e)
          (filter (\<lambda>q. p_id q \<noteq> p_id x) (participants d)) = []"
    using le1 x by (intro filter_key_removes) auto
  then have "find (\<lambda>p. activity_id p = a_id A \<and> email p = e)
          (filter (\<lambda>q. p_id q \<noteq> p_id x) (participants d)) = None"
    by (simp only: find_None_filter_iff)
  then show ?thesis
    unfolding res by (simp add: unregister_unfold fA)
qed

text \<open>
  Claim C4, as the code has it. For every store, activity name and email, unregister fails
  with 404 "Activity not found" when no activity has the name; with \<open>A\<close> the activity of
  that name, it fails with 400 "Student is not signed up for this activity" when no
  participant row for \<open>A\<close> and the email exists; otherwise it deletes the first such row
  (by its key) and succeeds. When the store holds at most one participant row for \<open>A\<close>
  and the email, a second unregister right after a successful one fails with the
  "not signed up" error and changes nothing; every store reached from the seeded store
  by requests applied one at a time is such a store.
\<close>

theorem unregister_checks:
  "((\<forall>a\<in>set (activities d). name a \<noteq> n) \<longrightarrow>
      unregister n e d = (Inl (HTTPException 404 ''Activity not found''), d)) \<and>
   (find (\<lambda>a. name a = n) (activities d) = Some A \<and>
    \<not> (\<exists>p\<in>set (participants d). activity_id p = a_id A \<and> email p = e) \<longrightarrow>
      unregister n e d =
        (Inl (HTTPException 400 ''Student is not signed up for this activity''), d)) \<and>
   (find (\<lambda>a. name a = n) (activities d) = Some A \<and>
    find (\<lambda>p. activity_id p = a_id A \<and> email p = e) (participants d) = Some x \<longrightarrow>
      unregister n e d =
        (Inr [(''message'', ''Unregistered '' @ e @ '' from '' @ n)],
         d\<lparr>participants := filter (\<lambda>q. p_id q \<noteq> p_id x) (participants d)\<rparr>)) \<and>
   (find (\<lambda>a. name a = n) (activities d) = Some A \<and>
    length (filter (\<lambda>p. activity_id p = a_id A \<and> email p = e) (participants d)) \<le> 1 \<and>
    fst (unregister n e d) = Inr m \<longrightarrow>
      unregister n e (snd (unregister n e d)) =
        (Inl (HTTPException 400 ''Student is not signed up for this activity''),
         snd (unregister n e d))) \<and>
   (fst (unregister n e (run rs seeded)) = Inr m \<longrightarrow>
      unregister n e (snd (unregister n e (run rs seeded))) =
        (Inl (HTTPException 400 ''Student is not signed up for this activity''),
         snd (unregister n e (run rs seeded))))"
proof (intro conjI impI)
  assume "\<forall>a\<in>set (activities d). name a \<noteq> n"
  then have "find (\<lambda>a. name a = n) (activities d) = None"
    by (simp add: find_None_ball)
  then show "unregister n e d = (Inl (HTTPException 404 ''Activity not found''), d)"
    by (simp add: unregister_unfold)
next
  assume h: "find (\<lambda>a. name a = n) (activities d) = Some A \<and>
    \<not> (\<exists>p\<in>set (participants d). activity_id p = a_id A \<and> email p = e)"
  then have "find (\<lambda>p. activity_id p = a_id A \<and> email p = e) (participants d) = None"
    by (simp add: find_None_ball)
  with h show "unregister n e d =
        (Inl (HTTPException 400 ''Student is not signed up for this activity''), d)"
    by (simp add: unregister_unfold)
next
  assume "find (\<lambda>a. name a = n) (activities d) = Some A \<and>
    find (\<lambda>p. activity_id p = a_id A \<and> email p = e) (participants d) = Some x"
  then show "unregister n e d =
        (Inr [(''message'', ''Unregistered '' @ e @ '' from '' @ n)],
         d\<lparr>participants := filter (\<lambda>q. p_id q \<noteq> p_id x) (participants d)\<rparr>)"
    by (simp add: unregister_unfold)
next
  assume "find (\<lambda>a. name a = n) (activities d) = Some A \<and>
    length (filter (\<lambda>p. activity_id p = a_id A \<and> email p = e) (participants d)) \<le> 1 \<and>
    fst (unregister n e d) = Inr m"
  then show "unregister n e (snd (unregister n e d)) =
        (Inl (HTTPException 400 ''Student is not signed up for this activity''),
         snd (unregister n e d))"
    by (intro unregister_twice [of n d A e m]) simp_all
next
  assume ok: "fst (unregister n e (run rs seeded)) = Inr m"
  then obtain B where fB: "find (\<lambda>a. name a = n) (activities (run rs seeded)) = Some B"
    by (auto simp: unregister_unfold split: option.splits)
  have le1: "length (filter (\<lambda>p. activity_id p = a_id B \<and> email p = e)
          (participants (run rs seeded))) \<le> 1"
    by (rule unique_pairs_le1 [OF unique_pairs_run [OF unique_pairs_seeded]])
  from fB le1 ok show "unregister n e (snd (unregister n e (run rs seeded))) =
        (Inl (HTTPException 400 ''Student is not signed up for this activity''),
         snd (unregister n e (run rs seeded)))"
    by (rule unregister_twice)
qed

theorem unregister_checks_witness:
  "unregister ''Golf'' ''michael@mergington.edu''
     \<lparr>activities = [\<lparr>a_id = 1, name = ''Chess Club'', description = ''Chess'', schedule = ''Fridays'', max_participants = 12\<rparr>],
       participants = [\<lparr>p_id = 1, activity_id = 1, email = ''michael@mergington.edu''\<rparr>]\<rparr> =
     (Inl (HTTPException 404 ''Activity not found''),
      \<lparr>activities = [\<lparr>a_id = 1, name = ''Chess Club'', description = ''Chess'', schedule = ''Fridays'', max_participants = 12\<rparr>],
       participants = [\<lparr>p_id = 1, activity_id = 1, email = ''michael@mergington.edu''\<rparr>]\<rparr>) \<and>
   unregister ''Chess Club'' ''michael@mergington.edu''
     \<lparr>activities = [\<lparr>a_id = 1, name = ''Chess Club'', description = ''Chess'', schedule = ''Fridays'', max_participants = 12\<rparr>],
       participants = []\<rparr> =
     (Inl (HTTPException 400 ''Student is not signed up for this activity''),
      \<lparr>activities = [\<lparr>a_id = 1, name = ''Chess Club'', description = ''Chess'', schedule = ''Fridays'', max_participants = 12\<rparr>],
       participants = []\<rparr>) \<and>
   unregister ''Chess Club'' ''michael@mergington.edu''
     \<lparr>activities = [\<lparr>a_id = 1, name = ''Chess Club'', description = ''Chess'', schedule = ''Fridays'', max_participants = 12\<rparr>],
       participants = [\<lparr>p_id = 1, activity_id = 1, email = ''michael@mergington.edu''\<rparr>]\<rparr> =
     (Inr [(''message'', ''Unregistered michael@mergington.edu from Chess Club'')],
      \<lparr>activities = [\<lparr>a_id = 1, name = ''Chess Club'', description = ''Chess'', schedule = ''Fridays'', max_participants = 12\<rparr>],
       participants = []\<rparr>) \<and>
   unregister ''Chess Club'' ''michael@mergington.edu''
     (snd (unregister ''Chess Club'' ''michael@mergington.edu''
       \<lparr>activities = [\<lparr>a_id = 1, name = ''Chess Club'', description = ''Chess'', schedule = ''Fridays'', max_participants = 12\<rparr>],
       participants = [\<lparr>p_id = 1, activity_id = 1, email = ''michael@mergington.edu''\<rparr>]\<rparr>)) =
     (Inl (HTTPException 400 ''Student is not signed up for this activity''),
      \<lparr>activities = [\<lparr>a_id = 1, name = ''Chess Club'', description = ''Chess'', schedule = ''Fridays'', max_participants = 12\<rparr>],
       participants = []\<rparr>) \<and>
   fst (unregister ''Chess Club'' ''michael@mergington.edu''
     (snd (unregister ''Chess Club'' ''michael@mergington.edu''
       (run [Signup ''Chess Club'' ''zoe@mergington.edu''] seeded)))) =
     Inl (HTTPException 400 ''Student is not signed up for this activity'')"
proof -
  have fixed: "unregister ''Golf'' ''michael@mergington.edu''
     \<lparr>activities = [\<lparr>a_id = 1, name = ''Chess Club'', description = ''Chess'', schedule = ''Fridays'', max_participants = 12\<rparr>],
       participants = [\<lparr>p_id = 1, activity_id = 1, email = ''michael@mergington.edu''\<rparr>]\<rparr> =
     (Inl (HTTPException 404 ''Activity not found''),
      \<lparr>activities = [\<lparr>a_id = 1, name = ''Chess Club'', description = ''Chess'', schedule = ''Fridays'', max_participants = 12\<rparr>],
       participants = [\<lparr>p_id = 1, activity_id = 1, email = ''michael@mergington.edu''\<rparr>]\<rparr>) \<and>
   unregister ''Chess Club'' ''michael@mergington.edu''
     \<lparr>activities = [\<lparr>a_id = 1, name = ''Chess Club'', description = ''Chess'', schedule = ''Fridays'', max_participants = 12\<rparr>],
       participants = []\<rparr> =
     (Inl (HTTPException 400 ''Student is not signed up for this activity''),
      \<lparr>activities = [\<lparr>a_id = 1, name = ''Chess Club'', description = ''Chess'', schedule = ''Fridays'', max_participants = 12\<rparr>],
       participants = []\<rparr>) \<and>
   unregister ''Chess Club'' ''michael@mergington.edu''
     \<lparr>activities = [\<lparr>a_id = 1, name = ''Chess Club'', description = ''Chess'', schedule = ''Fridays'', max_participants = 12\<rparr>],
       participants = [\<lparr>p_id = 1, activity_id = 1, email = ''michael@mergington.edu''\<rparr>]\<rparr> =
     (Inr [(''message'', ''Unregistered michael@mergington.edu from Chess Club'')],
      \<lparr>activities = [\<lparr>a_id = 1, name = ''Chess Club'', description = ''Chess'', schedule = ''Fridays'', max_participants = 12\<rparr>],
       participants = []\<rparr>) \<and>
   unregister ''Chess Club'' ''michael@mergington.edu''
     (snd (unregister ''Chess Club'' ''michael@mergington.edu''
       \<lparr>activities = [\<lparr>a_id = 1, name = ''Chess Club'', description = ''Chess'', schedule = ''Fridays'', max_participants = 12\<rparr>],
       participants = [\<lparr>p_id = 1, activity_id = 1, email = ''michael@mergington.edu''\<rparr>]\<rparr>)) =
     (Inl (HTTPException 400 ''Student is not signed up for this activity''),
      \<lparr>activities = [\<lparr>a_id = 1, name = ''Chess Club'', description = ''Chess'', schedule = ''Fridays'', max_participants = 12\<rparr>],
       participants = []\<rparr>)"
    using
    unregister_checks [where n = "''Golf''" and e = "''michael@mergington.edu''"
      and d = "\<lparr>activities = [\<lparr>a_id = 1, name = ''Chess Club'', description = ''Chess'', schedule = ''Fridays'', max_participants = 12\<rparr>],
       participants = [\<lparr>p_id = 1, activity_id = 1, email = ''michael@mergington.edu''\<rparr>]\<rparr>"]
    unregister_checks [where n = "''Chess Club''" and e = "''michael@mergington.edu''"
      and A = "\<lparr>a_id = 1, name = ''Chess Club'', description = ''Chess'', schedule = ''Fridays'', max_participants = 12\<rparr>"
      and d = "\<lparr>activities = [\<lparr>a_id = 1, name = ''Chess Club'', description = ''Chess'', schedule = ''Fridays'', max_participants = 12\<rparr>],
       participants = []\<rparr>"]
    unregister_checks [where n = "''Chess Club''" and e = "''michael@mergington.edu''"
      and A = "\<lparr>a_id = 1, name = ''Chess Club'', description = ''Chess'', schedule = ''Fridays'', max_participants = 12\<rparr>"
      and x = "\<lparr>p_id = 1, activity_id = 1, email = ''michael@mergington.edu''\<rparr>"
      and m = "[(''message'', ''Unregistered michael@mergington.edu from Chess Club'')]"
      and d = "\<lparr>activities = [\<lparr>a_id = 1, name = ''Chess Club'', description = ''Chess'', schedule = ''Fridays'', max_participants = 12\<rparr>],
       participants = [\<lparr>p_id = 1, activity_id = 1, email = ''michael@mergington.edu''\<rparr>]\<rparr>"]
    by simp
  have ok: "fst (unregister ''Chess Club'' ''michael@mergington.edu''
       (run [Signup ''Chess Club'' ''zoe@mergington.edu''] seeded)) =
     Inr [(''message'', ''Unregistered michael@mergington.edu from Chess Club'')]"
    by (simp add: run_def signup_unfold unregister_unfold seeded_eq participants_of_def)
  have reached: "fst (unregister ''Chess Club'' ''michael@mergington.edu''
     (snd (unregister ''Chess Club'' ''michael@mergington.edu''
       (run [Signup ''Chess Club'' ''zoe@mergington.edu''] seeded)))) =
     Inl (HTTPException 400 ''Student is not signed up for this activity'')"
    using ok unregister_checks [where n = "''Chess Club''" and e = "''michael@mergington.edu''"
      and m = "[(''message'', ''Unregistered michael@mergington.edu from Chess Club'')]"
      and rs = "[Signup ''Chess Club'' ''zoe@mergington.edu'']"]
    by simp
  from fixed reached show ?thesis by (intro conjI) simp_all
qed

text \<open>
  The participants table has no unique constraint on the activity and the email. In a
  store that holds two rows for the same activity and email, the first unregister deletes
  one of them and the second unregister succeeds as well, deleting the other.
\<close>

theorem unregister_twice_counterexample:
  "fst (unregister ''Chess Club'' ''michael@mergington.edu''
     \<lparr>activities = [\<lparr>a_id = 1, name = ''Chess Club'', description = ''Chess'', schedule = ''Fridays'', max_participants = 12\<rparr>],
       participants = [\<lparr>p_id = 1, activity_id = 1, email = ''michael@mergington.edu''\<rparr>,
                       \<lparr>p_id = 2, activity_id = 1, email = ''michael@mergington.edu''\<rparr>]\<rparr>) =
     Inr [(''message'', ''Unregistered michael@mergington.edu from Chess Club'')] \<and>
   unregister ''Chess Club'' ''michael@mergington.edu''
     (snd (unregister ''Chess Club'' ''michael@mergington.edu''
       \<lparr>activities = [\<lparr>a_id = 1, name = ''Chess Club'', description = ''Chess'', schedule = ''Fridays'', max_participants = 12\<rparr>],
       participants = [\<lparr>p_id = 1, activity_id = 1, email = ''michael@mergington.edu''\<rparr>,
                       \<lparr>p_id = 2, activity_id = 1, email = ''michael@mergington.edu''\<rparr>]\<rparr>)) =
     (Inr [(''message'', ''Unregistered michael@mergington.edu from Chess Club'')],
      \<lparr>activities = [\<lparr>a_id = 1, name = ''Chess Club'', description = ''Chess'', schedule = ''Fridays'', max_participants = 12\<rparr>],
       participants = []\<rparr>)"
  by (simp add: unregister_unfold)

section \<open>What a signup changes\<close>

lemma signup_success:
  assumes "fst (signup n e d) = Inr m"
  obtains A where "find (\<lambda>a. name a = n) (activities d) = Some A"
    and "find (\<lambda>p. activity_id p = a_id A \<and> email p = e) (participants d) = None"
    and "int (length (participants_of d (a_id A))) < max_participants A"
    and "signup n e d =
        (Inr [(''message'', ''Signed up '' @ e @ '' for '' @ n)],
         d\<lparr>participants := participants d @
            [\<lparr>p_id = next_rowid (map p_id (participants d)),
              activity_id = a_id A, email = e\<rparr>]\<rparr>)"
  using assms by (auto simp: signup_unfold split: option.splits if_splits)

lemma next_rowid_not_used: "next_rowid ids \<notin> set ids"
  using next_rowid_fresh [of "next_rowid ids" ids] by auto

lemma filter_other_keys:
  "k \<notin> set (map f xs) \<Longrightarrow> filter (\<lambda>q. f q \<noteq> k) xs = xs"
  by (induction xs) auto

text \<open>
  Claim C5. For every store and every activity name and email: when signup succeeds,
  unregister with the same name and email on the resulting store succeeds and gives back
  the store as it was before the signup, so the participants of every activity are those
  before the signup.
\<close>

theorem signup_then_unregister:
  assumes "fst (signup n e d) = Inr m"
  shows "unregister n e (snd (signup n e d)) =
           (Inr [(''message'', ''Unregistered '' @ e @ '' from '' @ n)], d)"
proof -
  from assms obtain A where fA: "find (\<lambda>a. name a = n) (activities d) = Some A"
    and none: "find (\<lambda>p. activity_id p = a_id A \<and> email p = e) (participants d) = None"
    and res: "signup n e d =
        (Inr [(''message'', ''Signed up '' @ e @ '' for '' @ n)],
         d\<lparr>participants := participants d @
            [\<lparr>p_id = next_rowid (map p_id (participants d)),
              activity_id = a_id A, email = e\<rparr>]\<rparr>)"
    by (rule signup_success)
  let ?new = "\<lparr>p_id = next_rowid (map p_id (participants d)),
               activity_id = a_id A, email = e\<rparr>"
  have found: "find (\<lambda>p. activity_id p = a_id A \<and> email p = e) (participants d @ [?new])
      = Some ?new"
    using none by (simp add: find_append_new)
  have kept: "filter (\<lambda>q. p_id q \<noteq> next_rowid (map p_id (participants d))) (participants d)
      = participants d"
    by (rule filter_other_keys) (rule next_rowid_not_used)
  show ?thesis
    by (simp add: res unregister_unfold fA found kept)
qed

theorem signup_then_unregister_witness:
  "fst (signup ''Chess Club'' ''michael@mergington.edu''
     \<lparr>activities = [\<lparr>a_id = 1, name = ''Chess Club'', description = ''Chess'', schedule = ''Fridays'', max_participants = 1\<rparr>],
       participants = []\<rparr>) =
     Inr [(''message'', ''Signed up michael@mergington.edu for Chess Club'')] \<and>
   unregister ''Chess Club'' ''michael@mergington.edu''
     (snd (signup ''Chess Club'' ''michael@mergington.edu''
       \<lparr>activities = [\<lparr>a_id = 1, name = ''Chess Club'', description = ''Chess'', schedule = ''Fridays'', max_participants = 1\<rparr>],
       participants = []\<rparr>)) =
     (Inr [(''message'', ''Unregistered michael@mergington.edu from Chess Club'')],
      \<lparr>activities = [\<lparr>a_id = 1, name = ''Chess Club'', description = ''Chess'', schedule = ''Fridays'', max_participants = 1\<rparr>],
       participants = []\<rparr>)"
proof -
  have ok: "fst (signup ''Chess Club'' ''michael@mergington.edu''
     \<lparr>activities = [\<lparr>a_id = 1, name = ''Chess Club'', description = ''Chess'', schedule = ''Fridays'', max_participants = 1\<rparr>],
       participants = []\<rparr>) =
     Inr [(''message'', ''Signed up michael@mergington.edu for Chess Club'')]"
    by (simp add: signup_unfold participants_of_def)
  from signup_then_unregister [OF ok] ok show ?thesis
    by simp
qed

text \<open>
  Claim C10. For every store, a successful signup for the activity \<open>A\<close> of the given
  name and the email \<open>e\<close> appends exactly one participant row, with
  \<open>activity_id = a_id A\<close>, \<open>email = e\<close> and a key no row had; the rows there before
  are kept as they were, and the participant rows of every other activity key are
  unchanged.
\<close>

theorem signup_inserts_one_row:
  assumes "fst (signup n e d) = Inr m"
  shows "\<exists>A. find (\<lambda>a. name a = n) (activities d) = Some A \<and>
     participants (snd (signup n e d)) =
       participants d @ [\<lparr>p_id = next_rowid (map p_id (participants d)),
                          activity_id = a_id A, email = e\<rparr>] \<and>
     next_rowid (map p_id (participants d)) \<notin> set (map p_id (participants d)) \<and>
     (\<forall>b. b \<noteq> a_id A \<longrightarrow>
        participants_of (snd (signup n e d)) b = participants_of d b)"
proof -
  from assms obtain A where fA: "find (\<lambda>a. name a = n) (activities d) = Some A"
    and res: "signup n e d =
        (Inr [(''message'', ''Signed up '' @ e @ '' for '' @ n)],
         d\<lparr>participants := participants d @
            [\<lparr>p_id = next_rowid (map p_id (participants d)),
              activity_id = a_id A, email = e\<rparr>]\<rparr>)"
    by (rule signup_success)
  have "participants_of (snd (signup n e d)) b = participants_of d b" if "b \<noteq> a_id A" for b
    using that by (auto simp: res participants_of_def)
  with fA next_rowid_not_used [of "map p_id (participants d)"] show ?thesis
    by (intro exI [of _ A]) (simp add: res)
qed

theorem signup_inserts_one_row_witness:
  "fst (signup ''Chess Club'' ''michael@mergington.edu''
     \<lparr>activities = [\<lparr>a_id = 1, name = ''Chess Club'', description = ''Chess'', schedule = ''Fridays'', max_participants = 1\<rparr>],
       participants = []\<rparr>) =
     Inr [(''message'', ''Signed up michael@mergington.edu for Chess Club'')] \<and>
   participants (snd (signup ''Chess Club'' ''michael@mergington.edu''
     \<lparr>activities = [\<lparr>a_id = 1, name = ''Chess Club'', description = ''Chess'', schedule = ''Fridays'', max_participants = 1\<rparr>],
       participants = []\<rparr>)) =
     [\<lparr>p_id = 1, activity_id = 1, email = ''michael@mergington.edu''\<rparr>]"
proof -
  have ok: "fst (signup ''Chess Club'' ''michael@mergington.edu''
     \<lparr>activities = [\<lparr>a_id = 1, name = ''Chess Club'', description = ''Chess'', schedule = ''Fridays'', max_participants = 1\<rparr>],
       participants = []\<rparr>) =
     Inr [(''message'', ''Signed up michael@mergington.edu for Chess Club'')]"
    by (simp add: signup_unfold participants_of_def)
  from signup_inserts_one_row [OF ok] ok show ?thesis
    by (auto simp: next_rowid_def)
qed

section \<open>What the handlers leave alone\<close>

text \<open>
  Claim C8. For every store and every request (list, signup, unregister), whether it
  succeeds or fails, the activities table is the same after the request: no handler
  creates, deletes or changes an activity.
\<close>

theorem handlers_keep_activities:
  "activities (snd (list_activities d)) = activities d \<and>
   activities (snd (signup n e d)) = activities d \<and>
   activities (snd (unregister n e d)) = activities d"
  by (simp add: list_activities_state signup_activities unregister_activities)

theorem handlers_keep_activities_witness:
  "activities (snd (unregister ''Chess Club'' ''michael@mergington.edu''
     \<lparr>activities = [\<lparr>a_id = 1, name = ''Chess Club'', description = ''Chess'', schedule = ''Fridays'', max_participants = 12\<rparr>],
       participants = [\<lparr>p_id = 1, activity_id = 1, email = ''michael@mergington.edu''\<rparr>]\<rparr>)) =
     [\<lparr>a_id = 1, name = ''Chess Club'', description = ''Chess'', schedule = ''Fridays'', max_participants = 12\<rparr>] \<and>
   activities (snd (signup ''Chess Club'' ''daniel@mergington.edu''
     \<lparr>activities = [\<lparr>a_id = 1, name = ''Chess Club'', description = ''Chess'', schedule = ''Fridays'', max_participants = 12\<rparr>],
       participants = [\<lparr>p_id = 1, activity_id = 1, email = ''michael@mergington.edu''\<rparr>]\<rparr>)) =
     [\<lparr>a_id = 1, name = ''Chess Club'', description = ''Chess'', schedule = ''Fridays'', max_participants = 12\<rparr>]"
  using handlers_keep_activities [where n = "''Chess Club''" and e = "''michael@mergington.edu''"
      and d = "\<lparr>activities = [\<lparr>a_id = 1, name = ''Chess Club'', description = ''Chess'', schedule = ''Fridays'', max_participants = 12\<rparr>],
       participants = [\<lparr>p_id = 1, activity_id = 1, email = ''michael@mergington.edu''\<rparr>]\<rparr>"]
    handlers_keep_activities [where n = "''Chess Club''" and e = "''daniel@mergington.edu''"
      and d = "\<lparr>activities = [\<lparr>a_id = 1, name = ''Chess Club'', description = ''Chess'', schedule = ''Fridays'', max_participants = 12\<rparr>],
       participants = [\<lparr>p_id = 1, activity_id = 1, email = ''michael@mergington.edu''\<rparr>]\<rparr>"]
  by simp

text \<open>
  Claim C9. For every store, activity name and email: when signup or unregister answers
  with an error, the store after the call (activities and participants) is the store
  before the call.
\<close>

theorem errors_leave_store:
  "(fst (signup n e d) = Inl err \<longrightarrow> snd (signup n e d) = d) \<and>
   (fst (unregister n e d) = Inl err \<longrightarrow> snd (unregister n e d) = d)"
  by (auto simp: signup_unfold unregister_unfold split: option.splits if_splits)

theorem errors_leave_store_witness:
  "fst (signup ''Chess Club'' ''daniel@mergington.edu''
     \<lparr>activities = [\<lparr>a_id = 1, name = ''Chess Club'', description = ''Chess'', schedule = ''Fridays'', max_participants = 1\<rparr>],
       participants = [\<lparr>p_id = 1, activity_id = 1, email = ''michael@mergington.edu''\<rparr>]\<rparr>) = Inl (HTTPException 400 ''Activity is full'') \<and>
   snd (signup ''Chess Club'' ''daniel@mergington.edu''
     \<lparr>activities = [\<lparr>a_id = 1, name = ''Chess Club'', description = ''Chess'', schedule = ''Fridays'', max_participants = 1\<rparr>],
       participants = [\<lparr>p_id = 1, activity_id = 1, email = ''michael@mergington.edu''\<rparr>]\<rparr>) =
     \<lparr>activities = [\<lparr>a_id = 1, name = ''Chess Club'', description = ''Chess'', schedule = ''Fridays'', max_participants = 1\<rparr>],
       participants = [\<lparr>p_id = 1, activity_id = 1, email = ''michael@mergington.edu''\<rparr>]\<rparr> \<and>
   fst (unregister ''Chess Club'' ''daniel@mergington.edu''
     \<lparr>activities = [\<lparr>a_id = 1, name = ''Chess Club'', description = ''Chess'', schedule = ''Fridays'', max_participants = 1\<rparr>],
       participants = [\<lparr>p_id = 1, activity_id = 1, email = ''michael@mergington.edu''\<rparr>]\<rparr>) =
     Inl (HTTPException 400 ''Student is not signed up for this activity'') \<and>
   snd (unregister ''Chess Club'' ''daniel@mergington.edu''
     \<lparr>activities = [\<lparr>a_id = 1, name = ''Chess Club'', description = ''Chess'', schedule = ''Fridays'', max_participants = 1\<rparr>],
       participants = [\<lparr>p_id = 1, activity_id = 1, email = ''michael@mergington.edu''\<rparr>]\<rparr>) =
     \<lparr>activities = [\<lparr>a_id = 1, name = ''Chess Club'', description = ''Chess'', schedule = ''Fridays'', max_participants = 1\<rparr>],
       participants = [\<lparr>p_id = 1, activity_id = 1, email = ''michael@mergington.edu''\<rparr>]\<rparr>"
  using
    errors_leave_store [where n = "''Chess Club''" and e = "''daniel@mergington.edu''"
      and err = "HTTPException 400 ''Activity is full''"
      and d = "\<lparr>activities = [\<lparr>a_id = 1, name = ''Chess Club'', description = ''Chess'', schedule = ''Fridays'', max_participants = 1\<rparr>],
       participants = [\<lparr>p_id = 1, activity_id = 1, email = ''michael@mergington.edu''\<rparr>]\<rparr>"]
    errors_leave_store [where n = "''Chess Club''" and e = "''daniel@mergington.edu''"
      and err = "HTTPException 400 ''Student is not signed up for this activity''"
      and d = "\<lparr>activities = [\<lparr>a_id = 1, name = ''Chess Club'', description = ''Chess'', schedule = ''Fridays'', max_participants = 1\<rparr>],
       participants = [\<lparr>p_id = 1, activity_id = 1, email = ''michael@mergington.edu''\<rparr>]\<rparr>"]
  by (simp add: signup_unfold unregister_unfold participants_of_def)

section \<open>Seeding\<close>

text \<open>
  Claim C6. Seeding the empty store inserts exactly 9 activities and 18 participant rows,
  2 for each activity; the result has an activity named "Chess Club" with
  \<open>max_participants = 12\<close> and the participant emails michael@mergington.edu and
  daniel@mergington.edu. Seeding a store that already has an activity changes nothing.
\<close>

theorem seed_on_empty_store:
  "length (activities (seed_initial_data empty_db)) = 9 \<and>
   length (participants (seed_initial_data empty_db)) = 18 \<and>
   (\<forall>A\<in>set (activities (seed_initial_data empty_db)).
      length (participant_emails (seed_initial_data empty_db) (a_id A)) = 2) \<and>
   (\<exists>A\<in>set (activities (seed_initial_data empty_db)).
      name A = ''Chess Club'' \<and> max_participants A = 12 \<and>
      participant_emails (seed_initial_data empty_db) (a_id A) =
        [''michael@mergington.edu'', ''daniel@mergington.edu'']) \<and>
   (activities d \<noteq> [] \<longrightarrow> seed_initial_data d = d)"
proof -
  have "activities d \<noteq> [] \<longrightarrow> seed_initial_data d = d"
    by (simp add: seed_initial_data_def SessionLocal_def close_def Let_def)
  then show ?thesis
    by (simp add: seeded_eq [unfolded seeded_def] participant_emails_def participants_of_def)
qed

theorem seed_on_empty_store_witness:
  "\<lparr>a_id = 1, name = ''Chess Club'',
       description = ''Learn strategies and compete in chess tournaments'',
       schedule = ''Fridays, 3:30 PM - 5:00 PM'', max_participants = 12\<rparr>
     \<in> set (activities (seed_initial_data empty_db)) \<and>
   length (participant_emails (seed_initial_data empty_db) 1) = 2 \<and>
   seed_initial_data
     \<lparr>activities = [\<lparr>a_id = 1, name = ''Chess Club'', description = ''Chess'', schedule = ''Fridays'', max_participants = 12\<rparr>],
       participants = []\<rparr> =
     \<lparr>activities = [\<lparr>a_id = 1, name = ''Chess Club'', description = ''Chess'', schedule = ''Fridays'', max_participants = 12\<rparr>],
       participants = []\<rparr>"
proof -
  have mem: "\<lparr>a_id = 1, name = ''Chess Club'',
       description = ''Learn strategies and compete in chess tournaments'',
       schedule = ''Fridays, 3:30 PM - 5:00 PM'', max_participants = 12\<rparr>
     \<in> set (activities (seed_initial_data empty_db))"
    by (simp add: seeded_eq [unfolded seeded_def])
  from seed_on_empty_store [where d = "\<lparr>activities = [\<lparr>a_id = 1, name = ''Chess Club'', description = ''Chess'', schedule = ''Fridays'', max_participants = 12\<rparr>],
       participants = []\<rparr>"]
  have all: "\<forall>A\<in>set (activities (seed_initial_data empty_db)).
      length (participant_emails (seed_initial_data empty_db) (a_id A)) = 2"
    and skip: "seed_initial_data
     \<lparr>activities = [\<lparr>a_id = 1, name = ''Chess Club'', description = ''Chess'', schedule = ''Fridays'', max_participants = 12\<rparr>],
       participants = []\<rparr> =
     \<lparr>activities = [\<lparr>a_id = 1, name = ''Chess Club'', description = ''Chess'', schedule = ''Fridays'', max_participants = 12\<rparr>],
       participants = []\<rparr>"
    by simp_all
  from bspec [OF all mem] mem skip show ?thesis by simp
qed

section \<open>Listing the activities\<close>

lemma update_new_key:
  "k \<notin> fst ` set al \<Longrightarrow> AList.update k v al = al @ [(k, v)]"
  by (induction al) auto

lemma fold_update_distinct:
  "distinct (map f xs) \<Longrightarrow> set (map f xs) \<inter> fst ` set acc = {} \<Longrightarrow>
     fold (\<lambda>a r. AList.update (f a) (g a) r) xs acc = acc @ map (\<lambda>a. (f a, g a)) xs"
proof (induction xs arbitrary: acc)
  case Nil
  then show ?case by simp
next
  case (Cons x xs)
  from Cons.prems have new: "f x \<notin> fst ` set acc" by auto
  have "set (map f xs) \<inter> fst ` set (acc @ [(f x, g x)]) = {}"
    using Cons.prems by auto
  with Cons.IH [of "acc @ [(f x, g x)]"] Cons.prems(1) new show ?case
    by (simp add: update_new_key)
qed

lemma fold_update_keys:
  "fst ` set (fold (\<lambda>a r. AList.update (f a) (g a) r) xs acc) = fst ` set acc \<union> f ` set xs"
  by (induction xs arbitrary: acc) (auto simp: AList.dom_update)

lemma fold_update_distinct_keys:
  "distinct (map fst acc) \<Longrightarrow>
     distinct (map fst (fold (\<lambda>a r. AList.update (f a) (g a) r) xs acc))"
  by (induction xs arbitrary: acc) (simp_all add: AList.distinct_update)

text \<open>
  Claim C7. For every store, listing the activities returns a result (the handler has no
  error path) and leaves the store unchanged. The keys of the result are the names of the
  stored activities, each once. When the names of the stored activities are distinct, as
  the unique constraint on \<^verbatim>\<open>Activity.name\<close> has it, the result has one entry for each
  stored activity, in the order of the table, keyed by its name and holding its
  description, schedule, \<open>max_participants\<close> and the emails of exactly the participant
  rows that reference it. On the empty store the result is empty.
\<close>

theorem list_activities_result:
  "snd (list_activities d) = d \<and>
   fst ` set (fst (list_activities d)) = name ` set (activities d) \<and>
   distinct (map fst (fst (list_activities d))) \<and>
   (distinct (map name (activities d)) \<longrightarrow>
      fst (list_activities d) =
        map (\<lambda>A. (name A,
                  \<lparr>d_description = description A, d_schedule = schedule A,
                   d_max_participants = max_participants A,
                   d_participants =
                     map email (filter (\<lambda>p. activity_id p = a_id A) (participants d))\<rparr>))
          (activities d)) \<and>
   fst (list_activities empty_db) = []"
proof -
  have res: "fst (list_activities d) =
      fold (\<lambda>a r. AList.update (name a) (to_dict a (Some (participant_emails d (a_id a)))) r)
        (activities d) []" for d
    by (simp add: list_activities_def get_db_def get_activities_def SessionLocal_def close_def)
  have keys: "fst ` set (fst (list_activities d)) = name ` set (activities d)"
    unfolding res by (simp add: fold_update_keys)
  have dist: "distinct (map fst (fst (list_activities d)))"
    unfolding res by (rule fold_update_distinct_keys) simp
  have full: "fst (list_activities d) =
        map (\<lambda>A. (name A,
                  \<lparr>d_description = description A, d_schedule = schedule A,
                   d_max_participants = max_participants A,
                   d_participants =
                     map email (filter (\<lambda>p. activity_id p = a_id A) (participants d))\<rparr>))
          (activities d)"
    if "distinct (map name (activities d))"
    unfolding res using fold_update_distinct [OF that, of "[]"]
    by (simp add: to_dict_def participant_emails_def participants_of_def)
  have "fst (list_activities empty_db) = []"
    unfolding res by (simp add: empty_db_def)
  with keys dist full show ?thesis
    by (simp add: list_activities_state)
qed

theorem list_activities_result_witness:
  "fst (list_activities
     \<lparr>activities = [\<lparr>a_id = 1, name = ''Chess Club'', description = ''Chess'', schedule = ''Fridays'', max_participants = 12\<rparr>,
                     \<lparr>a_id = 2, name = ''Gym Class'', description = ''Gym'', schedule = ''Mondays'', max_participants = 30\<rparr>],
       participants = [\<lparr>p_id = 1, activity_id = 1, email = ''michael@mergington.edu''\<rparr>,
                       \<lparr>p_id = 2, activity_id = 2, email = ''john@mergington.edu''\<rparr>,
                       \<lparr>p_id = 3, activity_id = 1, email = ''daniel@mergington.edu''\<rparr>]\<rparr>) =
     [(''Chess Club'',
       \<lparr>d_description = ''Chess'', d_schedule = ''Fridays'', d_max_participants = 12,
        d_participants = [''michael@mergington.edu'', ''daniel@mergington.edu'']\<rparr>),
      (''Gym Class'',
       \<lparr>d_description = ''Gym'', d_schedule = ''Mondays'', d_max_participants = 30,
        d_participants = [''john@mergington.edu'']\<rparr>)] \<and>
   snd (list_activities
     \<lparr>activities = [\<lparr>a_id = 1, name = ''Chess Club'', description = ''Chess'', schedule = ''Fridays'', max_participants = 12\<rparr>,
                     \<lparr>a_id = 2, name = ''Gym Class'', description = ''Gym'', schedule = ''Mondays'', max_participants = 30\<rparr>],
       participants = [\<lparr>p_id = 1, activity_id = 1, email = ''michael@mergington.edu''\<rparr>,
                       \<lparr>p_id = 2, activity_id = 2, email = ''john@mergington.edu''\<rparr>,
                       \<lparr>p_id = 3, activity_id = 1, email = ''daniel@mergington.edu''\<rparr>]\<rparr>) =
     \<lparr>activities = [\<lparr>a_id = 1, name = ''Chess Club'', description = ''Chess'', schedule = ''Fridays'', max_participants = 12\<rparr>,
                     \<lparr>a_id = 2, name = ''Gym Class'', description = ''Gym'', schedule = ''Mondays'', max_participants = 30\<rparr>],
       participants = [\<lparr>p_id = 1, activity_id = 1, email = ''michael@mergington.edu''\<rparr>,
                       \<lparr>p_id = 2, activity_id = 2, email = ''john@mergington.edu''\<rparr>,
                       \<lparr>p_id = 3, activity_id = 1, email = ''daniel@mergington.edu''\<rparr>]\<rparr>"
  using list_activities_result [where d = "\<lparr>activities = [\<lparr>a_id = 1, name = ''Chess Club'', description = ''Chess'', schedule = ''Fridays'', max_participants = 12\<rparr>,
                     \<lparr>a_id = 2, name = ''Gym Class'', description = ''Gym'', schedule = ''Mondays'', max_participants = 30\<rparr>],
       participants = [\<lparr>p_id = 1, activity_id = 1, email = ''michael@mergington.edu''\<rparr>,
                       \<lparr>p_id = 2, activity_id = 2, email = ''john@mergington.edu''\<rparr>,
                       \<lparr>p_id = 3, activity_id = 1, email = ''daniel@mergington.edu''\<rparr>]\<rparr>"]
  by simp

end
